theory Spec2Isabelle
  imports Main "HOL-Library.AList"
begin

section \<open>In-place update feasibility check of the KubeadmControlPlane controller\<close>

text \<open>
  A shallow embedding of
  \<^verbatim>\<open>controlplane/kubeadm/internal/controllers/inplace_canupdatemachine.go\<close>.
  Go pointers to freshly built values are modelled by the values themselves, in-place
  mutation by returning the updated value, and the packages the file imports
  (the runtime client, server side apply, the JSON codec, the JSON patch library, the
  diff helper) by the fields of a record of collaborators. Logging is left out: no
  result depends on it.
\<close>

subsection \<open>Documents, errors and patches\<close>

type_synonym bytes = string

datatype json =
    JNull
  | JBool bool
  | JNum int
  | JStr string
  | JArr "json list"
  | JObj "(string \<times> json) list"

text \<open>The content of an \<^verbatim>\<open>unstructured.Unstructured\<close>: its \<^verbatim>\<open>Object\<close> map.\<close>

type_synonym unstructured = "(string \<times> json) list"

text \<open>
  Go errors: \<^verbatim>\<open>errors.Errorf\<close>, \<^verbatim>\<open>errors.Wrap\<close> and
  \<^verbatim>\<open>kerrors.NewAggregate\<close>. The value \<^verbatim>\<open>nil\<close> of type
  \<^verbatim>\<open>error\<close> is \<open>None\<close> of \<open>error option\<close>.
\<close>

datatype error =
    Errorf string
  | Wrap error string
  | Aggregate "error list"

text \<open>What a call into a library gives: a value, an error, or a panic with its value.\<close>

datatype 'a outcome = Ok 'a | Err error | Panic string

text \<open>
  \<^verbatim>\<open>kerrors.NewAggregate\<close> drops the nil entries of its argument and
  is nil itself when nothing is left.
\<close>

definition NewAggregate :: "error option list \<Rightarrow> error option" where
  "NewAggregate errlist =
     (case List.map_filter id errlist of
        [] \<Rightarrow> None
      | e # es \<Rightarrow> Some (Aggregate (e # es)))"

text \<open>A typed API object (a Machine or a KubeadmConfig): type meta, object meta, spec, and the rest.\<close>

record typed_object =
  APIVersion :: string
  Kind :: string
  Name :: string
  Namespace :: string
  Labels :: "(string \<times> string) list option"
  Annotations :: "(string \<times> string) list option"
  OtherMeta :: json
  Spec :: json
  Status :: json

type_synonym machine = typed_object
type_synonym kubeadm_config = typed_object

text \<open>
  A \<^verbatim>\<open>runtime.Object\<close>: the nil interface, or one of the object kinds this
  file handles.
\<close>

datatype runtime_object =
    NilObject
  | MachineObject machine
  | KubeadmConfigObject kubeadm_config
  | UnstructuredObject unstructured

record raw_extension =
  Raw :: bytes
  Object :: runtime_object

record patch =
  PatchType :: string
  Patch :: bytes

text \<open>
  Modelled from the spec: the two values of \<^verbatim>\<open>runtimehooksv1.PatchType\<close>,
  whose declaration is not part of the file
  (\<open>patchType \<in> {JSONPatch, JSONMergePatch}\<close>).
\<close>

definition JSONPatchType :: string where
  "JSONPatchType = ''JSONPatch''"

definition JSONMergePatchType :: string where
  "JSONMergePatchType = ''JSONMergePatch''"

record request_objects =
  Machine :: machine
  BootstrapConfig :: raw_extension
  InfrastructureMachine :: raw_extension

record can_update_machine_request =
  Current :: request_objects
  Desired :: request_objects

record can_update_machine_response =
  MachinePatch :: patch
  BootstrapConfigPatch :: patch
  InfrastructureMachinePatch :: patch

record up_to_date_result =
  DesiredMachine :: "machine option"
  CurrentInfraMachine :: "unstructured option"
  DesiredInfraMachine :: "unstructured option"
  CurrentKubeadmConfig :: "kubeadm_config option"
  DesiredKubeadmConfig :: "kubeadm_config option"

subsection \<open>Collaborators\<close>

text \<open>
  The functions of other packages that the file calls. Each is a parameter of the model;
  the theorems hold for every choice of them.
  \<^item> \<open>json_Marshal\<close>, \<open>json_Unmarshal_Unstructured\<close>, \<open>json_Unmarshal_Machine\<close>:
    \<^verbatim>\<open>encoding/json\<close>;
  \<^item> \<open>jsonpatch_DecodePatch\<close>, \<open>jsonpatch_Apply\<close>, \<open>jsonpatch_MergePatch\<close>:
    \<^verbatim>\<open>github.com/evanphx/json-patch/v5\<close>; a patch is a list of operations;
  \<^item> \<open>compare_Diff\<close>: \<^verbatim>\<open>internal/util/compare\<close>;
  \<^item> \<open>clusterv1_GroupVersion\<close>, \<open>bootstrapv1_GroupVersion\<close>: the strings
    \<^verbatim>\<open>clusterv1.GroupVersion.String()\<close> and \<^verbatim>\<open>bootstrapv1.GroupVersion.String()\<close>;
  \<^item> \<open>PrepareKubeadmConfigsForDiff\<close>: package \<^verbatim>\<open>internal\<close>, taking and giving
    (desired, current);
  \<^item> \<open>Patch_IsDefined\<close>: the method \<^verbatim>\<open>IsDefined\<close> of
    \<^verbatim>\<open>runtimehooksv1.Patch\<close>;
  \<^item> \<open>InPlaceUpdates_Enabled\<close>: \<^verbatim>\<open>feature.Gates.Enabled(feature.InPlaceUpdates)\<close>.
\<close>

record libs =
  json_Marshal :: "runtime_object \<Rightarrow> error + bytes"
  json_Unmarshal_Unstructured :: "bytes \<Rightarrow> error + unstructured"
  json_Unmarshal_Machine :: "bytes \<Rightarrow> error + machine"
  jsonpatch_DecodePatch :: "bytes \<Rightarrow> json list outcome"
  jsonpatch_Apply :: "json list \<Rightarrow> bytes \<Rightarrow> bytes outcome"
  jsonpatch_MergePatch :: "bytes \<Rightarrow> bytes \<Rightarrow> bytes outcome"
  compare_Diff :: "runtime_object \<Rightarrow> runtime_object \<Rightarrow> error + (bool \<times> string)"
  clusterv1_GroupVersion :: string
  bootstrapv1_GroupVersion :: string
  PrepareKubeadmConfigsForDiff ::
    "kubeadm_config \<Rightarrow> kubeadm_config \<Rightarrow> kubeadm_config \<times> kubeadm_config"
  Patch_IsDefined :: "patch \<Rightarrow> bool"
  InPlaceUpdates_Enabled :: bool

subsection \<open>The patch engine\<close>

text \<open>
  Modelled from the spec: \<^verbatim>\<open>patchutil.PatchSpec\<close> (package
  \<^verbatim>\<open>internal/util/patch\<close>), which is not part of the file. The spec: only the spec
  subtree of the patched result is copied back into the target document, all other
  fields of the target are left untouched; the serialized and the structured form of a
  document are re-derived together; structural errors are hard errors; the target is
  only mutated on success. A patched copy without a spec subtree has nothing to copy
  back, which is taken as such an error. The result is the new target, or the error.
\<close>

definition PatchSpec :: "libs \<Rightarrow> raw_extension \<Rightarrow> bytes \<Rightarrow> error + raw_extension" where
  "PatchSpec L obj patchedObject =
     (case json_Unmarshal_Unstructured L (Raw obj) of
        Inl e \<Rightarrow> Inl (Wrap e ''failed to convert object to Unstructured'')
      | Inr target \<Rightarrow>
          (case json_Unmarshal_Unstructured L patchedObject of
             Inl e \<Rightarrow> Inl (Wrap e ''failed to convert patched object to Unstructured'')
           | Inr patched \<Rightarrow>
               (case map_of patched ''spec'' of
                  None \<Rightarrow> Inl (Errorf ''missing field spec in patched object'')
                | Some s \<Rightarrow>
                    (let target' = AList.update ''spec'' s target in
                     case json_Marshal L (UnstructuredObject target') of
                       Inl e \<Rightarrow> Inl (Wrap e ''failed to marshal patched object'')
                     | Inr raw' \<Rightarrow>
                         Inr \<lparr>Raw = raw', Object = UnstructuredObject target'\<rparr>))))"

text \<open>
  The deferred function of \<^verbatim>\<open>applyPatchToObject\<close>: on a panic with value \<open>r\<close>
  the named results are \<^verbatim>\<open>objChanged = false\<close> (never assigned before a
  \<^verbatim>\<open>return\<close>) and the aggregate of \<^verbatim>\<open>reterr\<close>, still nil, and the panic.
\<close>

definition recovered :: "string \<Rightarrow> bool \<times> error option" where
  "recovered r =
     (False, NewAggregate [None, Some (Errorf (''observed a panic when applying patch: '' @ r))])"

text \<open>
  \<^verbatim>\<open>applyPatchToObject\<close> gives the object after the call, \<^verbatim>\<open>objChanged\<close> and
  \<^verbatim>\<open>reterr\<close>. The \<^verbatim>\<open>switch\<close> either returns (\<open>Inl\<close>) or leaves the patched
  copy of \<^verbatim>\<open>obj.Raw\<close> (\<open>Inr\<close>) for \<^verbatim>\<open>PatchSpec\<close>.
\<close>

definition applyPatchToObject ::
    "libs \<Rightarrow> raw_extension \<Rightarrow> patch \<Rightarrow> raw_extension \<times> bool \<times> error option" where
  "applyPatchToObject L obj patch =
     (if PatchType patch = '''' then
        (obj, False, Some (Errorf ''failed to apply patch: patchType is not set''))
      else
        (let patchedObject = Raw obj;
             switch =
               (if PatchType patch = JSONPatchType then
                  (case jsonpatch_DecodePatch L (Patch patch) of
                     Panic r \<Rightarrow> Inl (recovered r)
                   | Err e \<Rightarrow>
                       Inl (False,
                         Some (Wrap e ''failed to apply patch: error decoding json patch (RFC6902)''))
                   | Ok jsonPatch \<Rightarrow>
                       (if length jsonPatch = 0 then Inl (False, None)
                        else
                          (case jsonpatch_Apply L jsonPatch patchedObject of
                             Panic r \<Rightarrow> Inl (recovered r)
                           | Err e \<Rightarrow>
                               Inl (False,
                                 Some (Wrap e
                                   ''failed to apply patch: error applying json patch (RFC6902)''))
                           | Ok patchedObject' \<Rightarrow> Inr patchedObject')))
                else if PatchType patch = JSONMergePatchType then
                  (if length (Patch patch) = 0 \<or> Patch patch = ''{}'' then Inl (False, None)
                   else
                     (case jsonpatch_MergePatch L patchedObject (Patch patch) of
                        Panic r \<Rightarrow> Inl (recovered r)
                      | Err e \<Rightarrow>
                          Inl (False,
                            Some (Wrap e
                              ''failed to apply patch: error applying json merge patch (RFC7386)''))
                      | Ok patchedObject' \<Rightarrow> Inr patchedObject'))
                else
                  Inl (False,
                    Some (Errorf (''failed to apply patch: unknown patchType '' @ PatchType patch))))
         in case switch of
              Inl ret \<Rightarrow> (obj, ret)
            | Inr patchedObject' \<Rightarrow>
                (case PatchSpec L obj patchedObject' of
                   Inl e \<Rightarrow> (obj, False, Some (Wrap e ''failed to apply patch to object''))
                 | Inr obj' \<Rightarrow> (obj', True, None))))"

subsection \<open>The reconciler\<close>

text \<open>
  \<^verbatim>\<open>client.Client\<close> as \<^verbatim>\<open>createRequest\<close> uses it: \<^verbatim>\<open>ssa.Patch\<close> with
  \<^verbatim>\<open>ssa.WithDryRun\<close>, which overwrites the object with what the API server would
  store, for a Machine and for an Unstructured.
\<close>

record client =
  ssa_Patch_DryRun_Machine :: "machine \<Rightarrow> error + machine"
  ssa_Patch_DryRun_Unstructured :: "unstructured \<Rightarrow> error + unstructured"

text \<open>
  The runtime client, for the hook \<^verbatim>\<open>runtimehooksv1.CanUpdateMachine\<close>:
  \<^verbatim>\<open>GetAllExtensions\<close> gives the names of the registered handlers,
  \<^verbatim>\<open>CallExtension\<close> the response of one handler to a request.
\<close>

record runtime_client =
  GetAllExtensions :: "machine \<Rightarrow> error + string list"
  CallExtension ::
    "machine \<Rightarrow> string \<Rightarrow> can_update_machine_request \<Rightarrow> error + can_update_machine_response"

text \<open>
  The fields of \<^verbatim>\<open>KubeadmControlPlaneReconciler\<close> that the file reads. The two
  override functions replace \<^verbatim>\<open>canUpdateMachine\<close> and
  \<^verbatim>\<open>canExtensionsUpdateMachine\<close> when they are set.
\<close>

record reconciler =
  overrideCanUpdateMachineFunc ::
    "(machine \<Rightarrow> up_to_date_result \<Rightarrow> bool \<times> error option) option"
  overrideCanExtensionsUpdateMachine ::
    "(machine \<Rightarrow> up_to_date_result \<Rightarrow> string list \<Rightarrow> bool \<times> string list \<times> error option) option"
  RuntimeClient :: runtime_client
  Client :: client

text \<open>A Go call either returns its results or panics.\<close>

datatype 'a go = Returns 'a | Panics string

text \<open>
  What an evaluation does that a caller can observe besides its results: the handlers it
  calls and the convergence checks it runs, in order.
\<close>

datatype event =
    Called_CallExtension string
  | Called_matchesMachine

subsection \<open>Building the request\<close>

definition convertToRawExtension :: "libs \<Rightarrow> runtime_object \<Rightarrow> error + raw_extension" where
  "convertToRawExtension L object =
     (case json_Marshal L object of
        Inl err \<Rightarrow> Inl (Wrap err ''failed to marshal object to JSON'')
      | Inr objectBytes \<Rightarrow>
          (case object of
             UnstructuredObject u \<Rightarrow> Inr \<lparr>Raw = objectBytes, Object = UnstructuredObject u\<rparr>
           | _ \<Rightarrow>
               (case json_Unmarshal_Unstructured L objectBytes of
                  Inl err \<Rightarrow> Inl (Wrap err ''failed to Unmarshal object into Unstructured'')
                | Inr u \<Rightarrow> Inr \<lparr>Raw = objectBytes, Object = UnstructuredObject u\<rparr>)))"

definition cleanupMachine :: "libs \<Rightarrow> machine \<Rightarrow> machine" where
  "cleanupMachine L machine =
     \<lparr>APIVersion = clusterv1_GroupVersion L, Kind = ''Machine'',
      Name = Name machine, Namespace = Namespace machine,
      Labels = Labels machine, Annotations = Annotations machine,
      OtherMeta = JNull, Spec = Spec machine, Status = JNull\<rparr>"

definition cleanupKubeadmConfig :: "libs \<Rightarrow> kubeadm_config \<Rightarrow> kubeadm_config" where
  "cleanupKubeadmConfig L kubeadmConfig =
     \<lparr>APIVersion = bootstrapv1_GroupVersion L, Kind = ''KubeadmConfig'',
      Name = Name kubeadmConfig, Namespace = Namespace kubeadmConfig,
      Labels = Labels kubeadmConfig, Annotations = Annotations kubeadmConfig,
      OtherMeta = JNull, Spec = Spec kubeadmConfig, Status = JNull\<rparr>"

text \<open>
  The accessors of \<^verbatim>\<open>unstructured.Unstructured\<close> (k8s.io/apimachinery) that
  \<^verbatim>\<open>cleanupUnstructured\<close> and \<^verbatim>\<open>createRequest\<close> call. A getter gives the zero
  value when the field is absent or of another type; a setter given the zero value removes
  the field, and otherwise stores it under \<^verbatim>\<open>metadata\<close>, creating that map when it is
  absent and doing nothing when \<^verbatim>\<open>metadata\<close> is not a map.
\<close>

definition index_or_nil :: "unstructured \<Rightarrow> string \<Rightarrow> json" where
  "index_or_nil u k = (case map_of u k of None \<Rightarrow> JNull | Some v \<Rightarrow> v)"

definition string_field :: "unstructured \<Rightarrow> string \<Rightarrow> string" where
  "string_field u k = (case map_of u k of Some (JStr s) \<Rightarrow> s | _ \<Rightarrow> '''')"

definition metadata_field :: "unstructured \<Rightarrow> string \<Rightarrow> json option" where
  "metadata_field u k = (case map_of u ''metadata'' of Some (JObj m) \<Rightarrow> map_of m k | _ \<Rightarrow> None)"

definition set_metadata_field :: "string \<Rightarrow> json \<Rightarrow> unstructured \<Rightarrow> unstructured" where
  "set_metadata_field k v u =
     (case map_of u ''metadata'' of
        None \<Rightarrow> AList.update ''metadata'' (JObj [(k, v)]) u
      | Some (JObj m) \<Rightarrow> AList.update ''metadata'' (JObj (AList.update k v m)) u
      | Some _ \<Rightarrow> u)"

definition remove_metadata_field :: "string \<Rightarrow> unstructured \<Rightarrow> unstructured" where
  "remove_metadata_field k u =
     (case map_of u ''metadata'' of
        Some (JObj m) \<Rightarrow> AList.update ''metadata'' (JObj (AList.delete k m)) u
      | _ \<Rightarrow> u)"

fun string_of_json :: "json \<Rightarrow> string option" where
  "string_of_json (JStr s) = Some s"
| "string_of_json _ = None"

definition string_map_of_json :: "json \<Rightarrow> (string \<times> string) list option" where
  "string_map_of_json j =
     (case j of
        JObj kvs \<Rightarrow>
          (if list_all (\<lambda>(k, v). string_of_json v \<noteq> None) kvs
           then Some (map (\<lambda>(k, v). (k, the (string_of_json v))) kvs)
           else None)
      | _ \<Rightarrow> None)"

definition json_of_string_map :: "(string \<times> string) list \<Rightarrow> json" where
  "json_of_string_map kvs = JObj (map (\<lambda>(k, v). (k, JStr v)) kvs)"

definition GetAPIVersion :: "unstructured \<Rightarrow> string" where
  "GetAPIVersion u = string_field u ''apiVersion''"

definition GetKind :: "unstructured \<Rightarrow> string" where
  "GetKind u = string_field u ''kind''"

definition GetName :: "unstructured \<Rightarrow> string" where
  "GetName u = (case metadata_field u ''name'' of Some (JStr s) \<Rightarrow> s | _ \<Rightarrow> '''')"

definition GetNamespace :: "unstructured \<Rightarrow> string" where
  "GetNamespace u = (case metadata_field u ''namespace'' of Some (JStr s) \<Rightarrow> s | _ \<Rightarrow> '''')"

definition GetLabels :: "unstructured \<Rightarrow> (string \<times> string) list option" where
  "GetLabels u =
     (case metadata_field u ''labels'' of Some j \<Rightarrow> string_map_of_json j | None \<Rightarrow> None)"

definition GetAnnotations :: "unstructured \<Rightarrow> (string \<times> string) list option" where
  "GetAnnotations u =
     (case metadata_field u ''annotations'' of Some j \<Rightarrow> string_map_of_json j | None \<Rightarrow> None)"

definition SetName :: "string \<Rightarrow> unstructured \<Rightarrow> unstructured" where
  "SetName name u =
     (if name = '''' then remove_metadata_field ''name'' u
      else set_metadata_field ''name'' (JStr name) u)"

definition SetNamespace :: "string \<Rightarrow> unstructured \<Rightarrow> unstructured" where
  "SetNamespace namespace u =
     (if namespace = '''' then remove_metadata_field ''namespace'' u
      else set_metadata_field ''namespace'' (JStr namespace) u)"

definition SetLabels :: "(string \<times> string) list option \<Rightarrow> unstructured \<Rightarrow> unstructured" where
  "SetLabels labels u =
     (case labels of
        None \<Rightarrow> remove_metadata_field ''labels'' u
      | Some kvs \<Rightarrow> set_metadata_field ''labels'' (json_of_string_map kvs) u)"

definition SetAnnotations :: "(string \<times> string) list option \<Rightarrow> unstructured \<Rightarrow> unstructured" where
  "SetAnnotations annotations u =
     (case annotations of
        None \<Rightarrow> remove_metadata_field ''annotations'' u
      | Some kvs \<Rightarrow> set_metadata_field ''annotations'' (json_of_string_map kvs) u)"

definition cleanupUnstructured :: "unstructured \<Rightarrow> unstructured" where
  "cleanupUnstructured u =
     (let cleanedUpU =
            [(''apiVersion'', JStr (GetAPIVersion u)),
             (''kind'', JStr (GetKind u)),
             (''spec'', index_or_nil u ''spec'')];
          cleanedUpU = SetName (GetName u) cleanedUpU;
          cleanedUpU = SetNamespace (GetNamespace u) cleanedUpU;
          cleanedUpU = SetLabels (GetLabels u) cleanedUpU;
          cleanedUpU = SetAnnotations (GetAnnotations u) cleanedUpU
      in cleanedUpU)"

text \<open>
  \<^verbatim>\<open>createRequest\<close> dereferences the five objects of the up-to-date result without
  a check (its caller \<^verbatim>\<open>canUpdateMachine\<close> has checked them): when one is nil
  the model panics, as the calls on the nil KubeadmConfig or InfraMachine do; for a nil
  desired Machine the Go code hands the nil pointer to \<^verbatim>\<open>ssa.Patch\<close> first.
  The deep copies are the values themselves.
\<close>

definition createRequest ::
    "libs \<Rightarrow> client \<Rightarrow> machine \<Rightarrow> up_to_date_result \<Rightarrow> (error + can_update_machine_request) go" where
  "createRequest L c currentMachine machineUpToDateResult =
     (case (DesiredMachine machineUpToDateResult,
            CurrentKubeadmConfig machineUpToDateResult,
            DesiredKubeadmConfig machineUpToDateResult,
            CurrentInfraMachine machineUpToDateResult,
            DesiredInfraMachine machineUpToDateResult) of
        (Some desiredMachineForDiff, Some currentKubeadmConfig, Some desiredKubeadmConfigForDiff,
         Some currentInfraMachine, Some desiredInfraMachineForDiff) \<Rightarrow>
          Returns
            (let currentMachineForDiff = currentMachine;
                 currentKubeadmConfigForDiff =
                   currentKubeadmConfig
                     \<lparr>Labels := Labels desiredKubeadmConfigForDiff,
                      Annotations := Annotations desiredKubeadmConfigForDiff\<rparr>;
                 currentInfraMachineForDiff =
                   SetAnnotations (GetAnnotations desiredInfraMachineForDiff)
                     (SetLabels (GetLabels desiredInfraMachineForDiff) currentInfraMachine)
             in
             case ssa_Patch_DryRun_Machine c desiredMachineForDiff of
               Inl err \<Rightarrow> Inl (Wrap err ''server side apply dry-run failed for desired Machine'')
             | Inr desiredMachineForDiff \<Rightarrow>
             (case ssa_Patch_DryRun_Unstructured c currentInfraMachineForDiff of
               Inl err \<Rightarrow>
                 Inl (Wrap err ''server side apply dry-run failed for current InfraMachine'')
             | Inr currentInfraMachineForDiff \<Rightarrow>
             (case ssa_Patch_DryRun_Unstructured c desiredInfraMachineForDiff of
               Inl err \<Rightarrow>
                 Inl (Wrap err ''server side apply dry-run failed for desired InfraMachine'')
             | Inr desiredInfraMachineForDiff \<Rightarrow>
             (case PrepareKubeadmConfigsForDiff L desiredKubeadmConfigForDiff
                     currentKubeadmConfigForDiff of
               (desiredKubeadmConfigForDiff, currentKubeadmConfigForDiff) \<Rightarrow>
             (case convertToRawExtension L
                     (KubeadmConfigObject (cleanupKubeadmConfig L currentKubeadmConfigForDiff)) of
               Inl err \<Rightarrow> Inl err
             | Inr currentBootstrapConfig \<Rightarrow>
             (case convertToRawExtension L
                     (KubeadmConfigObject (cleanupKubeadmConfig L desiredKubeadmConfigForDiff)) of
               Inl err \<Rightarrow> Inl err
             | Inr desiredBootstrapConfig \<Rightarrow>
             (case convertToRawExtension L
                     (UnstructuredObject (cleanupUnstructured currentInfraMachineForDiff)) of
               Inl err \<Rightarrow> Inl err
             | Inr currentInfrastructureMachine \<Rightarrow>
             (case convertToRawExtension L
                     (UnstructuredObject (cleanupUnstructured desiredInfraMachineForDiff)) of
               Inl err \<Rightarrow> Inl err
             | Inr desiredInfrastructureMachine \<Rightarrow>
                 Inr \<lparr>Current =
                        \<lparr>Machine = cleanupMachine L currentMachineForDiff,
                         BootstrapConfig = currentBootstrapConfig,
                         InfrastructureMachine = currentInfrastructureMachine\<rparr>,
                      Desired =
                        \<lparr>Machine = cleanupMachine L desiredMachineForDiff,
                         BootstrapConfig = desiredBootstrapConfig,
                         InfrastructureMachine = desiredInfrastructureMachine\<rparr>\<rparr>))))))))
      | _ \<Rightarrow> Panics ''invalid memory address or nil pointer dereference'')"

subsection \<open>Applying the patches of a response\<close>

text \<open>
  \<^verbatim>\<open>applyPatchToMachine\<close> gives the Machine after the call and the error. The
  Machine is only overwritten by the Machine decoded from the patched bytes.
\<close>

definition applyPatchToMachine :: "libs \<Rightarrow> machine \<Rightarrow> patch \<Rightarrow> machine \<times> error option" where
  "applyPatchToMachine L currentMachine machinePath =
     (case convertToRawExtension L (MachineObject currentMachine) of
        Inl err \<Rightarrow> (currentMachine, Some err)
      | Inr currentMachineRaw \<Rightarrow>
          (case applyPatchToObject L currentMachineRaw machinePath of
             (currentMachineRaw, machineChanged, Some err) \<Rightarrow> (currentMachine, Some err)
           | (currentMachineRaw, machineChanged, None) \<Rightarrow>
               (if \<not> machineChanged then (currentMachine, None)
                else
                  (case json_Unmarshal_Machine L (Raw currentMachineRaw) of
                     Inl err \<Rightarrow> (currentMachine, Some err)
                   | Inr patchedCurrentMachine \<Rightarrow> (patchedCurrentMachine, None)))))"

text \<open>
  \<^verbatim>\<open>applyPatchesToRequest\<close> gives the request after the call and the error: a
  patch that fails leaves the patches before it applied.
\<close>

definition applyPatchesToRequest ::
    "libs \<Rightarrow> can_update_machine_request \<Rightarrow> can_update_machine_response \<Rightarrow>
     can_update_machine_request \<times> error option" where
  "applyPatchesToRequest L req resp =
     (let (req, err1) =
            (if Patch_IsDefined L (MachinePatch resp) then
               (case applyPatchToMachine L (Machine (Current req)) (MachinePatch resp) of
                  (m, err) \<Rightarrow> (req\<lparr>Current := (Current req)\<lparr>Machine := m\<rparr>\<rparr>, err))
             else (req, None))
      in case err1 of
           Some err \<Rightarrow> (req, Some err)
         | None \<Rightarrow>
      (let (req, err2) =
            (if Patch_IsDefined L (BootstrapConfigPatch resp) then
               (case applyPatchToObject L (BootstrapConfig (Current req))
                       (BootstrapConfigPatch resp) of
                  (obj, changed, err) \<Rightarrow>
                    (req\<lparr>Current := (Current req)\<lparr>BootstrapConfig := obj\<rparr>\<rparr>, err))
             else (req, None))
      in case err2 of
           Some err \<Rightarrow> (req, Some err)
         | None \<Rightarrow>
      (let (req, err3) =
            (if Patch_IsDefined L (InfrastructureMachinePatch resp) then
               (case applyPatchToObject L (InfrastructureMachine (Current req))
                       (InfrastructureMachinePatch resp) of
                  (obj, changed, err) \<Rightarrow>
                    (req\<lparr>Current := (Current req)\<lparr>InfrastructureMachine := obj\<rparr>\<rparr>, err))
             else (req, None))
      in case err3 of
           Some err \<Rightarrow> (req, Some err)
         | None \<Rightarrow> (req, None))))"

subsection \<open>The convergence check\<close>

text \<open>The zero value of a typed object, as in \<^verbatim>\<open>&clusterv1.Machine{Spec: ...}\<close>.\<close>

definition zero_typed_object :: typed_object where
  "zero_typed_object =
     \<lparr>APIVersion = '''', Kind = '''', Name = '''', Namespace = '''',
      Labels = None, Annotations = None, OtherMeta = JNull, Spec = JNull, Status = JNull\<rparr>"

definition matchesMachineSpec :: "libs \<Rightarrow> machine \<Rightarrow> machine \<Rightarrow> error + (bool \<times> string)" where
  "matchesMachineSpec L patched desired =
     compare_Diff L
       (MachineObject (zero_typed_object\<lparr>Spec := Spec patched\<rparr>))
       (MachineObject (zero_typed_object\<lparr>Spec := Spec desired\<rparr>))"

definition matchesUnstructuredSpec ::
    "libs \<Rightarrow> raw_extension \<Rightarrow> raw_extension \<Rightarrow> error + (bool \<times> string)" where
  "matchesUnstructuredSpec L patched desired =
     (case Object patched of
        UnstructuredObject patchedUnstructured \<Rightarrow>
          (case Object desired of
             UnstructuredObject desiredUnstructured \<Rightarrow>
               compare_Diff L
                 (UnstructuredObject [(''spec'', index_or_nil patchedUnstructured ''spec'')])
                 (UnstructuredObject [(''spec'', index_or_nil desiredUnstructured ''spec'')])
           | _ \<Rightarrow> Inl (Errorf ''desired object is not an Unstructured''))
      | _ \<Rightarrow> Inl (Errorf ''patched object is not an Unstructured''))"

text \<open>
  \<^verbatim>\<open>Object.GetObjectKind().GroupVersionKind().Kind\<close>: a method call on the nil
  interface panics.
\<close>

definition object_Kind :: "runtime_object \<Rightarrow> string go" where
  "object_Kind object =
     (case object of
        NilObject \<Rightarrow> Panics ''invalid memory address or nil pointer dereference''
      | MachineObject m \<Rightarrow> Returns (Kind m)
      | KubeadmConfigObject k \<Rightarrow> Returns (Kind k)
      | UnstructuredObject u \<Rightarrow> Returns (GetKind u))"

definition matchesMachine ::
    "libs \<Rightarrow> can_update_machine_request \<Rightarrow> (bool \<times> string list \<times> error option) go" where
  "matchesMachine L req =
     (let reasons = [] in
      case matchesMachineSpec L (Machine (Current req)) (Machine (Desired req)) of
        Inl err \<Rightarrow> Returns (False, [], Some (Wrap err ''failed to match Machine''))
      | Inr (match, diff) \<Rightarrow>
     (let reasons =
            (if \<not> match then reasons @ [''Machine cannot be updated in-place: '' @ diff]
             else reasons)
      in
      case matchesUnstructuredSpec L (BootstrapConfig (Current req))
             (BootstrapConfig (Desired req)) of
        Inl err \<Rightarrow> Returns (False, [], Some (Wrap err ''failed to match KubeadmConfig''))
      | Inr (match, diff) \<Rightarrow>
     (let reasons =
            (if \<not> match then reasons @ [''KubeadmConfig cannot be updated in-place: '' @ diff]
             else reasons)
      in
      case matchesUnstructuredSpec L (InfrastructureMachine (Current req))
             (InfrastructureMachine (Desired req)) of
        Inl err \<Rightarrow>
          (case object_Kind (Object (InfrastructureMachine (Current req))) of
             Panics p \<Rightarrow> Panics p
           | Returns kind \<Rightarrow> Returns (False, [], Some (Wrap err (''failed to match '' @ kind))))
      | Inr (match, diff) \<Rightarrow>
          (case (if \<not> match then
                   (case object_Kind (Object (InfrastructureMachine (Current req))) of
                      Panics p \<Rightarrow> Panics p
                    | Returns kind \<Rightarrow>
                        Returns (reasons @ [kind @ '' cannot be updated in-place: '' @ diff]))
                 else Returns reasons) of
             Panics p \<Rightarrow> Panics p
           | Returns reasons \<Rightarrow>
               (if length reasons > 0 then Returns (False, reasons, None)
                else Returns (True, [], None))))))"

subsection \<open>The negotiation with the extensions\<close>

text \<open>
  The \<^verbatim>\<open>for\<close> loop of \<^verbatim>\<open>canExtensionsUpdateMachine\<close> over the handlers that
  are left, from the request \<open>req\<close> and the variable \<open>reasons\<close>. It gives the results of
  the function, the request as the loop leaves it, and the events in order.
\<close>

fun canExtensionsUpdateMachine_loop ::
    "libs \<Rightarrow> reconciler \<Rightarrow> machine \<Rightarrow> string list \<Rightarrow> can_update_machine_request \<Rightarrow> string list \<Rightarrow>
     (bool \<times> string list \<times> error option) go \<times> can_update_machine_request \<times> event list" where
  "canExtensionsUpdateMachine_loop L r machine [] req reasons =
     (Returns (False, reasons, None), req, [])"
| "canExtensionsUpdateMachine_loop L r machine (extensionHandler # rest) req reasons =
     (case CallExtension (RuntimeClient r) machine extensionHandler req of
        Inl err \<Rightarrow>
          (Returns (False, [], Some err), req, [Called_CallExtension extensionHandler])
      | Inr resp \<Rightarrow>
          (case applyPatchesToRequest L req resp of
             (req, Some err) \<Rightarrow>
               (Returns (False, [],
                  Some (Wrap err (''failed to apply patches from extension '' @ extensionHandler @
                    '' to the CanUpdateMachine request''))),
                req, [Called_CallExtension extensionHandler])
           | (req, None) \<Rightarrow>
               (case matchesMachine L req of
                  Panics p \<Rightarrow>
                    (Panics p, req, [Called_CallExtension extensionHandler, Called_matchesMachine])
                | Returns (matches, reasons, Some err) \<Rightarrow>
                    (Returns (False, [],
                       Some (Wrap err
                         (''failed to compare current and desired objects after calling extension ''
                          @ extensionHandler))),
                     req, [Called_CallExtension extensionHandler, Called_matchesMachine])
                | Returns (matches, reasons, None) \<Rightarrow>
                    (if matches then
                       (Returns (True, [], None), req,
                        [Called_CallExtension extensionHandler, Called_matchesMachine])
                     else
                       (case canExtensionsUpdateMachine_loop L r machine rest req reasons of
                          (ret, req, events) \<Rightarrow>
                            (ret, req,
                             Called_CallExtension extensionHandler # Called_matchesMachine # events))))))"

text \<open>
  \<^verbatim>\<open>canExtensionsUpdateMachine\<close> gives its three results (or panics) and the events
  of the evaluation. What an override function does is not observed.
\<close>

definition canExtensionsUpdateMachine ::
    "libs \<Rightarrow> reconciler \<Rightarrow> machine \<Rightarrow> up_to_date_result \<Rightarrow> string list \<Rightarrow>
     (bool \<times> string list \<times> error option) go \<times> event list" where
  "canExtensionsUpdateMachine L r machine machineUpToDateResult extensionHandlers =
     (case overrideCanExtensionsUpdateMachine r of
        Some override \<Rightarrow> (Returns (override machine machineUpToDateResult extensionHandlers), [])
      | None \<Rightarrow>
          (case createRequest L (Client r) machine machineUpToDateResult of
             Panics p \<Rightarrow> (Panics p, [])
           | Returns (Inl err) \<Rightarrow>
               (Returns (False, [], Some (Wrap err ''failed to generate CanUpdateMachine request'')),
                [])
           | Returns (Inr req) \<Rightarrow>
               (case canExtensionsUpdateMachine_loop L r machine extensionHandlers req [] of
                  (ret, req, events) \<Rightarrow> (ret, events))))"

subsection \<open>The feasibility gate\<close>

fun strings_Join :: "string list \<Rightarrow> string \<Rightarrow> string" where
  "strings_Join [] sep = ''''"
| "strings_Join [x] sep = x"
| "strings_Join (x # y # ys) sep = x @ sep @ strings_Join (y # ys) sep"

definition canUpdateMachine ::
    "libs \<Rightarrow> reconciler \<Rightarrow> machine \<Rightarrow> up_to_date_result \<Rightarrow> (bool \<times> error option) go \<times> event list" where
  "canUpdateMachine L r machine machineUpToDateResult =
     (case overrideCanUpdateMachineFunc r of
        Some override \<Rightarrow> (Returns (override machine machineUpToDateResult), [])
      | None \<Rightarrow>
          (if \<not> InPlaceUpdates_Enabled L then (Returns (False, None), [])
           else if DesiredMachine machineUpToDateResult = None \<or>
                   CurrentInfraMachine machineUpToDateResult = None \<or>
                   DesiredInfraMachine machineUpToDateResult = None \<or>
                   CurrentKubeadmConfig machineUpToDateResult = None \<or>
                   DesiredKubeadmConfig machineUpToDateResult = None
           then (Returns (False, None), [])
           else
             (case GetAllExtensions (RuntimeClient r) machine of
                Inl err \<Rightarrow> (Returns (False, Some err), [])
              | Inr extensionHandlers \<Rightarrow>
                  (if length extensionHandlers = 0 then (Returns (False, None), [])
                   else if length extensionHandlers > 1 then
                     (Returns (False,
                        Some (Errorf (''found multiple CanUpdateMachine hooks ('' @
                          strings_Join extensionHandlers '','' @
                          '') (more than one is not supported yet)''))), [])
                   else
                     (case canExtensionsUpdateMachine L r machine machineUpToDateResult
                             extensionHandlers of
                        (Panics p, events) \<Rightarrow> (Panics p, events)
                      | (Returns (canUpdateMachine, reasons, Some err), events) \<Rightarrow>
                          (Returns (False, Some err), events)
                      | (Returns (canUpdateMachine, reasons, None), events) \<Rightarrow>
                          (if \<not> canUpdateMachine then (Returns (False, None), events)
                           else (Returns (True, None), events)))))))"

subsection \<open>A small cluster to run the definitions on\<close>

text \<open>
  One Machine with its KubeadmConfig and a DockerMachine whose desired spec has a larger
  size. The JSON codec is a table over the documents that occur; the patch library knows
  one operation list and one merge patch, \<open>grow\<close>, which sets the size to 2 and also
  renames the document, and panics on the payload \<open>boom\<close>; two documents are equal for
  the diff helper when they are the same value.
\<close>

definition demo_machine :: machine where
  "demo_machine =
     zero_typed_object\<lparr>Name := ''m1'', Spec := JObj [(''version'', JStr ''v1.31.0'')]\<rparr>"

definition demo_kubeadm_config :: kubeadm_config where
  "demo_kubeadm_config = zero_typed_object\<lparr>Name := ''m1'', Spec := JObj []\<rparr>"

definition demo_infra :: "int \<Rightarrow> string \<Rightarrow> unstructured" where
  "demo_infra n name =
     [(''apiVersion'', JStr ''infrastructure.cluster.x-k8s.io/v1beta2''),
      (''kind'', JStr ''DockerMachine''),
      (''spec'', JObj [(''size'', JNum n)]),
      (''metadata'', JObj [(''name'', JStr name)])]"

definition demo_machine_document :: unstructured where
  "demo_machine_document =
     [(''apiVersion'', JStr ''cluster.x-k8s.io/v1beta2''),
      (''kind'', JStr ''Machine''),
      (''spec'', JObj [(''version'', JStr ''v1.31.0'')]),
      (''metadata'', JObj [(''name'', JStr ''m1'')])]"

definition demo_kubeadm_config_document :: unstructured where
  "demo_kubeadm_config_document =
     [(''apiVersion'', JStr ''bootstrap.cluster.x-k8s.io/v1beta2''),
      (''kind'', JStr ''KubeadmConfig''),
      (''spec'', JObj []),
      (''metadata'', JObj [(''name'', JStr ''m1'')])]"

definition demo_Marshal :: "runtime_object \<Rightarrow> error + bytes" where
  "demo_Marshal object =
     (case object of
        NilObject \<Rightarrow> Inr ''null''
      | MachineObject m \<Rightarrow> Inr ''machine''
      | KubeadmConfigObject k \<Rightarrow> Inr ''kubeadmconfig''
      | UnstructuredObject u \<Rightarrow>
          (if u = demo_infra 1 ''m1'' then Inr ''size-1''
           else if u = demo_infra 2 ''m1'' then Inr ''size-2''
           else Inl (Errorf ''json: unsupported value'')))"

definition demo_Unmarshal_Unstructured :: "bytes \<Rightarrow> error + unstructured" where
  "demo_Unmarshal_Unstructured b =
     (if b = ''size-1'' then Inr (demo_infra 1 ''m1'')
      else if b = ''size-2'' then Inr (demo_infra 2 ''m1'')
      else if b = ''size-2-renamed'' then Inr (demo_infra 2 ''other'')
      else if b = ''machine'' then Inr demo_machine_document
      else if b = ''kubeadmconfig'' then Inr demo_kubeadm_config_document
      else Inl (Errorf ''invalid character''))"

definition demo_Unmarshal_Machine :: "bytes \<Rightarrow> error + machine" where
  "demo_Unmarshal_Machine b =
     (if b = ''machine'' then Inr demo_machine else Inl (Errorf ''invalid character''))"

definition demo_DecodePatch :: "bytes \<Rightarrow> json list outcome" where
  "demo_DecodePatch b =
     (if b = ''[]'' then Ok []
      else if b = ''boom'' then Panic ''index out of range''
      else if b = ''grow'' then Ok [JStr ''grow'']
      else Err (Errorf ''invalid character''))"

definition demo_Apply :: "json list \<Rightarrow> bytes \<Rightarrow> bytes outcome" where
  "demo_Apply ops doc =
     (if ops = [JStr ''grow''] \<and> doc = ''size-1'' then Ok ''size-2-renamed''
      else Err (Errorf ''path not found''))"

definition demo_MergePatch :: "bytes \<Rightarrow> bytes \<Rightarrow> bytes outcome" where
  "demo_MergePatch doc p =
     (if p = ''boom'' then Panic ''index out of range''
      else if p = ''grow'' \<and> doc = ''size-1'' then Ok ''size-2-renamed''
      else Err (Errorf ''invalid merge patch''))"

definition demo_Diff :: "runtime_object \<Rightarrow> runtime_object \<Rightarrow> error + (bool \<times> string)" where
  "demo_Diff a b = Inr (a = b, if a = b then '''' else ''spec differs'')"

definition demo_IsDefined :: "patch \<Rightarrow> bool" where
  "demo_IsDefined p = (PatchType p \<noteq> '''' \<or> length (Patch p) > 0)"

definition demo_libs :: "bool \<Rightarrow> libs" where
  "demo_libs enabled =
     \<lparr>json_Marshal = demo_Marshal,
      json_Unmarshal_Unstructured = demo_Unmarshal_Unstructured,
      json_Unmarshal_Machine = demo_Unmarshal_Machine,
      jsonpatch_DecodePatch = demo_DecodePatch,
      jsonpatch_Apply = demo_Apply,
      jsonpatch_MergePatch = demo_MergePatch,
      compare_Diff = demo_Diff,
      clusterv1_GroupVersion = ''cluster.x-k8s.io/v1beta2'',
      bootstrapv1_GroupVersion = ''bootstrap.cluster.x-k8s.io/v1beta2'',
      PrepareKubeadmConfigsForDiff = (\<lambda>desired current. (desired, current)),
      Patch_IsDefined = demo_IsDefined,
      InPlaceUpdates_Enabled = enabled\<rparr>"

definition no_patch :: patch where
  "no_patch = \<lparr>PatchType = '''', Patch = ''''\<rparr>"

text \<open>
  The handler \<open>grow\<close> answers with the JSON patch \<open>grow\<close> for the InfraMachine; every
  other handler answers with no patch.
\<close>

definition demo_CallExtension ::
    "machine \<Rightarrow> string \<Rightarrow> can_update_machine_request \<Rightarrow> error + can_update_machine_response" where
  "demo_CallExtension machine extensionHandler req =
     Inr \<lparr>MachinePatch = no_patch,
          BootstrapConfigPatch = no_patch,
          InfrastructureMachinePatch =
            (if extensionHandler = ''grow'' then \<lparr>PatchType = ''JSONPatch'', Patch = ''grow''\<rparr>
             else no_patch)\<rparr>"

definition demo_reconciler :: "string list \<Rightarrow> reconciler" where
  "demo_reconciler registered =
     \<lparr>overrideCanUpdateMachineFunc = None,
      overrideCanExtensionsUpdateMachine = None,
      RuntimeClient =
        \<lparr>GetAllExtensions = (\<lambda>machine. Inr registered), CallExtension = demo_CallExtension\<rparr>,
      Client =
        \<lparr>ssa_Patch_DryRun_Machine = Inr, ssa_Patch_DryRun_Unstructured = Inr\<rparr>\<rparr>"

definition demo_up_to_date_result :: "int \<Rightarrow> up_to_date_result" where
  "demo_up_to_date_result desired_size =
     \<lparr>DesiredMachine = Some demo_machine,
      CurrentInfraMachine = Some (demo_infra 1 ''m1''),
      DesiredInfraMachine = Some (demo_infra desired_size ''m1''),
      CurrentKubeadmConfig = Some demo_kubeadm_config,
      DesiredKubeadmConfig = Some demo_kubeadm_config\<rparr>"

definition demo_request :: "int \<Rightarrow> can_update_machine_request" where
  "demo_request desired_size =
     \<lparr>Current =
        \<lparr>Machine = cleanupMachine (demo_libs True) demo_machine,
         BootstrapConfig =
           \<lparr>Raw = ''kubeadmconfig'', Object = UnstructuredObject demo_kubeadm_config_document\<rparr>,
         InfrastructureMachine =
           \<lparr>Raw = ''size-1'', Object = UnstructuredObject (demo_infra 1 ''m1'')\<rparr>\<rparr>,
      Desired =
        \<lparr>Machine = cleanupMachine (demo_libs True) demo_machine,
         BootstrapConfig =
           \<lparr>Raw = ''kubeadmconfig'', Object = UnstructuredObject demo_kubeadm_config_document\<rparr>,
         InfrastructureMachine =
           \<lparr>Raw = (if desired_size = 1 then ''size-1'' else ''size-2''),
            Object = UnstructuredObject (demo_infra desired_size ''m1'')\<rparr>\<rparr>\<rparr>"

text \<open>
  The response of the handler \<open>grow\<close>, and the request after its patch: the current
  InfraMachine has the desired size, and the name it had.
\<close>

definition grow_response :: can_update_machine_response where
  "grow_response =
     \<lparr>MachinePatch = no_patch, BootstrapConfigPatch = no_patch,
      InfrastructureMachinePatch = \<lparr>PatchType = ''JSONPatch'', Patch = ''grow''\<rparr>\<rparr>"

definition grown_request :: can_update_machine_request where
  "grown_request =
     (demo_request 2)
       \<lparr>Current := (Current (demo_request 2))
          \<lparr>InfrastructureMachine :=
             \<lparr>Raw = ''size-2'', Object = UnstructuredObject (demo_infra 2 ''m1'')\<rparr>\<rparr>\<rparr>"

subsection \<open>Order of the events\<close>

text \<open>
  An event list in which every convergence check comes directly after the call of an
  extension, one check for a call at most.
\<close>

fun checks_follow_calls :: "event list \<Rightarrow> bool" where
  "checks_follow_calls [] = True"
| "checks_follow_calls (Called_matchesMachine # events) = False"
| "checks_follow_calls (Called_CallExtension h # Called_matchesMachine # events) =
     checks_follow_calls events"
| "checks_follow_calls (Called_CallExtension h # events) = checks_follow_calls events"

text \<open>The events of rounds that call a handler and check convergence, one round per handler.\<close>

definition full_rounds :: "string list \<Rightarrow> event list" where
  "full_rounds handlers =
     concat (map (\<lambda>h. [Called_CallExtension h, Called_matchesMachine]) handlers)"

section \<open>Properties\<close>

subsection \<open>The patch engine\<close>

lemma PatchSpec_Inr:
  assumes "PatchSpec L obj b = Inr obj'"
  shows "\<exists>target patched s.
           json_Unmarshal_Unstructured L (Raw obj) = Inr target \<and>
           json_Unmarshal_Unstructured L b = Inr patched \<and>
           map_of patched ''spec'' = Some s \<and>
           Object obj' = UnstructuredObject (AList.update ''spec'' s target) \<and>
           json_Marshal L (Object obj') = Inr (Raw obj')"
  using assms
  by (auto simp: PatchSpec_def Let_def split: sum.splits option.splits)

lemma applyPatchToObject_changed:
  assumes "applyPatchToObject L obj p = (obj', True, e)"
  shows "\<exists>b. ((PatchType p = JSONPatchType \<and>
                (\<exists>ops. jsonpatch_DecodePatch L (Patch p) = Ok ops \<and> ops \<noteq> [] \<and>
                       jsonpatch_Apply L ops (Raw obj) = Ok b)) \<or>
               (PatchType p = JSONMergePatchType \<and> Patch p \<noteq> [] \<and> Patch p \<noteq> ''{}'' \<and>
                jsonpatch_MergePatch L (Raw obj) (Patch p) = Ok b)) \<and>
              PatchSpec L obj b = Inr obj' \<and> e = None"
  using assms
  by (auto simp: applyPatchToObject_def Let_def recovered_def NewAggregate_def
           split: if_splits sum.splits outcome.splits)

lemma applyPatchToObject_error:
  assumes "applyPatchToObject L obj p = (obj', ch, Some e)"
  shows "obj' = obj \<and> \<not> ch"
  using assms
  by (auto simp: applyPatchToObject_def Let_def recovered_def NewAggregate_def
           split: if_splits sum.splits outcome.splits)

text \<open>
  C3. A patch that proposes no change is not applied: when the patch is a JSON patch
  whose payload decodes to the empty operation list, or a JSON merge patch whose payload
  is empty or is \<open>{}\<close>, \<^verbatim>\<open>applyPatchToObject\<close> returns \<^verbatim>\<open>(false, nil)\<close> and
  the target, its raw bytes included, is the value it was before the call.
\<close>

theorem applyPatchToObject_empty_patch:
  assumes "(PatchType p = JSONPatchType \<and> jsonpatch_DecodePatch L (Patch p) = Ok []) \<or>
           (PatchType p = JSONMergePatchType \<and> (Patch p = [] \<or> Patch p = ''{}''))"
  shows "applyPatchToObject L obj p = (obj, False, None)"
  using assms
  by (auto simp: applyPatchToObject_def Let_def JSONPatchType_def JSONMergePatchType_def)

theorem applyPatchToObject_empty_patch_witness:
  "jsonpatch_DecodePatch (demo_libs True) ''[]'' = Ok [] \<and>
   applyPatchToObject (demo_libs True) (InfrastructureMachine (Current (demo_request 2)))
       \<lparr>PatchType = ''JSONPatch'', Patch = ''[]''\<rparr> =
     (InfrastructureMachine (Current (demo_request 2)), False, None) \<and>
   applyPatchToObject (demo_libs True) (InfrastructureMachine (Current (demo_request 2)))
       \<lparr>PatchType = ''JSONMergePatch'', Patch = ''{}''\<rparr> =
     (InfrastructureMachine (Current (demo_request 2)), False, None)"
proof -
  have d: "jsonpatch_DecodePatch (demo_libs True) ''[]'' = Ok []"
    by (simp add: demo_libs_def demo_DecodePatch_def)
  have a: "applyPatchToObject (demo_libs True) (InfrastructureMachine (Current (demo_request 2)))
       \<lparr>PatchType = ''JSONPatch'', Patch = ''[]''\<rparr> =
     (InfrastructureMachine (Current (demo_request 2)), False, None)"
    by (rule applyPatchToObject_empty_patch) (simp add: d JSONPatchType_def)
  have b: "applyPatchToObject (demo_libs True) (InfrastructureMachine (Current (demo_request 2)))
       \<lparr>PatchType = ''JSONMergePatch'', Patch = ''{}''\<rparr> =
     (InfrastructureMachine (Current (demo_request 2)), False, None)"
    by (rule applyPatchToObject_empty_patch) (simp add: JSONMergePatchType_def)
  from d a b show ?thesis by simp
qed

text \<open>
  C4. A patch whose \<^verbatim>\<open>patchType\<close> is neither \<^verbatim>\<open>JSONPatch\<close> nor
  \<^verbatim>\<open>JSONMergePatch\<close> (the empty string included) is an error, never a success
  without change, and the target is the value it was before the call.
\<close>

theorem applyPatchToObject_unknown_patchType:
  assumes "PatchType p \<noteq> JSONPatchType" and "PatchType p \<noteq> JSONMergePatchType"
  shows "applyPatchToObject L obj p =
           (obj, False,
            Some (if PatchType p = ''''
                  then Errorf ''failed to apply patch: patchType is not set''
                  else Errorf (''failed to apply patch: unknown patchType '' @ PatchType p)))"
  using assms
  by (auto simp: applyPatchToObject_def Let_def)

theorem applyPatchToObject_unknown_patchType_witness:
  "applyPatchToObject (demo_libs True) (InfrastructureMachine (Current (demo_request 2)))
       \<lparr>PatchType = ''StrategicMergePatch'', Patch = ''grow''\<rparr> =
     (InfrastructureMachine (Current (demo_request 2)), False,
      Some (Errorf ''failed to apply patch: unknown patchType StrategicMergePatch'')) \<and>
   applyPatchToObject (demo_libs True) (InfrastructureMachine (Current (demo_request 2)))
       \<lparr>PatchType = '''', Patch = ''grow''\<rparr> =
     (InfrastructureMachine (Current (demo_request 2)), False,
      Some (Errorf ''failed to apply patch: patchType is not set''))"
  using applyPatchToObject_unknown_patchType
          [of "\<lparr>PatchType = ''StrategicMergePatch'', Patch = ''grow''\<rparr>" "demo_libs True"
              "InfrastructureMachine (Current (demo_request 2))"]
        applyPatchToObject_unknown_patchType
          [of "\<lparr>PatchType = '''', Patch = ''grow''\<rparr>" "demo_libs True"
              "InfrastructureMachine (Current (demo_request 2))"]
  by (simp add: JSONPatchType_def JSONMergePatchType_def)

lemma getters_update_spec:
  "GetAPIVersion (AList.update ''spec'' s u) = GetAPIVersion u"
  "GetKind (AList.update ''spec'' s u) = GetKind u"
  "GetName (AList.update ''spec'' s u) = GetName u"
  "GetNamespace (AList.update ''spec'' s u) = GetNamespace u"
  "GetLabels (AList.update ''spec'' s u) = GetLabels u"
  "GetAnnotations (AList.update ''spec'' s u) = GetAnnotations u"
  by (simp_all add: GetAPIVersion_def GetKind_def GetName_def GetNamespace_def GetLabels_def
        GetAnnotations_def string_field_def metadata_field_def update_conv')

text \<open>
  C5. When \<^verbatim>\<open>applyPatchToObject\<close> returns \<^verbatim>\<open>(true, nil)\<close>, the target is the
  document decoded from its raw bytes before the call with the field \<open>spec\<close> replaced by
  the \<open>spec\<close> of the patched copy, in both of its forms (the structured form, and the raw
  bytes marshalled from it). Every other top-level field is as before, whatever the patched
  copy holds there; so are the API version, kind, name, namespace, labels and annotations.
\<close>

theorem applyPatchToObject_only_spec:
  assumes "applyPatchToObject L obj p = (obj', True, None)"
  shows "\<exists>target target' patchedObject patched.
           json_Unmarshal_Unstructured L (Raw obj) = Inr target \<and>
           Object obj' = UnstructuredObject target' \<and>
           json_Marshal L (UnstructuredObject target') = Inr (Raw obj') \<and>
           ((PatchType p = JSONPatchType \<and>
             (\<exists>ops. jsonpatch_DecodePatch L (Patch p) = Ok ops \<and>
                    jsonpatch_Apply L ops (Raw obj) = Ok patchedObject)) \<or>
            (PatchType p = JSONMergePatchType \<and>
             jsonpatch_MergePatch L (Raw obj) (Patch p) = Ok patchedObject)) \<and>
           json_Unmarshal_Unstructured L patchedObject = Inr patched \<and>
           map_of target' ''spec'' = map_of patched ''spec'' \<and>
           (\<forall>k. k \<noteq> ''spec'' \<longrightarrow> map_of target' k = map_of target k) \<and>
           GetAPIVersion target' = GetAPIVersion target \<and>
           GetKind target' = GetKind target \<and>
           GetName target' = GetName target \<and>
           GetNamespace target' = GetNamespace target \<and>
           GetLabels target' = GetLabels target \<and>
           GetAnnotations target' = GetAnnotations target"
proof -
  from applyPatchToObject_changed [OF assms] obtain b where
    lib: "(PatchType p = JSONPatchType \<and>
            (\<exists>ops. jsonpatch_DecodePatch L (Patch p) = Ok ops \<and> ops \<noteq> [] \<and>
                   jsonpatch_Apply L ops (Raw obj) = Ok b)) \<or>
          (PatchType p = JSONMergePatchType \<and> Patch p \<noteq> [] \<and> Patch p \<noteq> ''{}'' \<and>
            jsonpatch_MergePatch L (Raw obj) (Patch p) = Ok b)"
    and ps: "PatchSpec L obj b = Inr obj'"
    by blast
  from PatchSpec_Inr [OF ps] obtain target patched s where
    t: "json_Unmarshal_Unstructured L (Raw obj) = Inr target"
    and pt: "json_Unmarshal_Unstructured L b = Inr patched"
    and s: "map_of patched ''spec'' = Some s"
    and o: "Object obj' = UnstructuredObject (AList.update ''spec'' s target)"
    and m: "json_Marshal L (Object obj') = Inr (Raw obj')"
    by blast
  let ?t' = "AList.update ''spec'' s target"
  have spec: "map_of ?t' ''spec'' = map_of patched ''spec''"
    by (simp add: s update_conv')
  have frame: "\<forall>k. k \<noteq> ''spec'' \<longrightarrow> map_of ?t' k = map_of target k"
    by (simp add: update_conv')
  from lib have lib': "(PatchType p = JSONPatchType \<and>
             (\<exists>ops. jsonpatch_DecodePatch L (Patch p) = Ok ops \<and>
                    jsonpatch_Apply L ops (Raw obj) = Ok b)) \<or>
            (PatchType p = JSONMergePatchType \<and>
             jsonpatch_MergePatch L (Raw obj) (Patch p) = Ok b)"
    by blast
  from m o have m': "json_Marshal L (UnstructuredObject ?t') = Inr (Raw obj')" by simp
  show ?thesis
    apply (rule exI [of _ target], rule exI [of _ ?t'], rule exI [of _ b], rule exI [of _ patched])
    using t o m' lib' pt spec frame by (simp add: getters_update_spec)
qed

theorem applyPatchToObject_only_spec_witness:
  "applyPatchToObject (demo_libs True)
       \<lparr>Raw = ''size-1'', Object = UnstructuredObject (demo_infra 1 ''m1'')\<rparr>
       \<lparr>PatchType = ''JSONMergePatch'', Patch = ''grow''\<rparr> =
     (\<lparr>Raw = ''size-2'', Object = UnstructuredObject (demo_infra 2 ''m1'')\<rparr>, True, None) \<and>
   jsonpatch_MergePatch (demo_libs True) ''size-1'' ''grow'' = Ok ''size-2-renamed'' \<and>
   json_Unmarshal_Unstructured (demo_libs True) ''size-2-renamed'' = Inr (demo_infra 2 ''other'') \<and>
   GetName (demo_infra 2 ''m1'') = GetName (demo_infra 1 ''m1'') \<and>
   GetName (demo_infra 1 ''m1'') = ''m1''"
proof -
  have e: "applyPatchToObject (demo_libs True)
       \<lparr>Raw = ''size-1'', Object = UnstructuredObject (demo_infra 1 ''m1'')\<rparr>
       \<lparr>PatchType = ''JSONMergePatch'', Patch = ''grow''\<rparr> =
     (\<lparr>Raw = ''size-2'', Object = UnstructuredObject (demo_infra 2 ''m1'')\<rparr>, True, None)"
    by code_simp
  have l: "jsonpatch_MergePatch (demo_libs True) ''size-1'' ''grow'' = Ok ''size-2-renamed''"
    by code_simp
  have u: "json_Unmarshal_Unstructured (demo_libs True) ''size-2-renamed'' =
             Inr (demo_infra 2 ''other'')"
    by code_simp
  have u1: "json_Unmarshal_Unstructured (demo_libs True) ''size-1'' = Inr (demo_infra 1 ''m1'')"
    by code_simp
  have n: "GetName (demo_infra 1 ''m1'') = ''m1''"
    by code_simp
  from applyPatchToObject_only_spec [OF e] u1
  have "GetName (demo_infra 2 ''m1'') = GetName (demo_infra 1 ''m1'')"
    by auto
  with e l u n show ?thesis by simp
qed

text \<open>
  C6. A panic of the patch library inside \<^verbatim>\<open>applyPatchToObject\<close> (in decoding a
  JSON patch, in applying it, or in applying a merge patch) does not leave the function:
  the function returns \<^verbatim>\<open>false\<close> and the aggregate error made from the panic
  value, with the target as it was. And whenever the function returns an error, of any
  origin, the target is the value it was before the call and \<^verbatim>\<open>objChanged\<close> is
  false.
\<close>

theorem applyPatchToObject_panic_isolated:
  "(((PatchType p = JSONPatchType \<and> jsonpatch_DecodePatch L (Patch p) = Panic v) \<or>
     (PatchType p = JSONPatchType \<and>
      (\<exists>ops. jsonpatch_DecodePatch L (Patch p) = Ok ops \<and> ops \<noteq> [] \<and>
             jsonpatch_Apply L ops (Raw obj) = Panic v)) \<or>
     (PatchType p = JSONMergePatchType \<and> Patch p \<noteq> [] \<and> Patch p \<noteq> ''{}'' \<and>
      jsonpatch_MergePatch L (Raw obj) (Patch p) = Panic v)) \<longrightarrow>
    applyPatchToObject L obj p =
      (obj, False, Some (Aggregate [Errorf (''observed a panic when applying patch: '' @ v)]))) \<and>
   (\<forall>obj' changed err.
      applyPatchToObject L obj p = (obj', changed, Some err) \<longrightarrow> obj' = obj \<and> \<not> changed)"
proof (intro conjI impI allI)
  assume "(PatchType p = JSONPatchType \<and> jsonpatch_DecodePatch L (Patch p) = Panic v) \<or>
     (PatchType p = JSONPatchType \<and>
      (\<exists>ops. jsonpatch_DecodePatch L (Patch p) = Ok ops \<and> ops \<noteq> [] \<and>
             jsonpatch_Apply L ops (Raw obj) = Panic v)) \<or>
     (PatchType p = JSONMergePatchType \<and> Patch p \<noteq> [] \<and> Patch p \<noteq> ''{}'' \<and>
      jsonpatch_MergePatch L (Raw obj) (Patch p) = Panic v)"
  then show "applyPatchToObject L obj p =
      (obj, False, Some (Aggregate [Errorf (''observed a panic when applying patch: '' @ v)]))"
    by (auto simp: applyPatchToObject_def Let_def recovered_def NewAggregate_def
          List.map_filter_simps JSONPatchType_def JSONMergePatchType_def)
next
  fix obj' changed err
  assume "applyPatchToObject L obj p = (obj', changed, Some err)"
  then show "obj' = obj" "\<not> changed"
    using applyPatchToObject_error by blast+
qed

theorem applyPatchToObject_panic_isolated_witness:
  "jsonpatch_MergePatch (demo_libs True) ''size-1'' ''boom'' = Panic ''index out of range'' \<and>
   applyPatchToObject (demo_libs True)
       \<lparr>Raw = ''size-1'', Object = UnstructuredObject (demo_infra 1 ''m1'')\<rparr>
       \<lparr>PatchType = ''JSONMergePatch'', Patch = ''boom''\<rparr> =
     (\<lparr>Raw = ''size-1'', Object = UnstructuredObject (demo_infra 1 ''m1'')\<rparr>, False,
      Some (Aggregate [Errorf ''observed a panic when applying patch: index out of range''])) \<and>
   snd (snd (applyPatchToObject (demo_libs True)
       \<lparr>Raw = ''size-1'', Object = UnstructuredObject (demo_infra 1 ''m1'')\<rparr>
       \<lparr>PatchType = ''JSONPatch'', Patch = ''{''\<rparr>)) =
     Some (Wrap (Errorf ''invalid character'')
       ''failed to apply patch: error decoding json patch (RFC6902)'') \<and>
   fst (applyPatchToObject (demo_libs True)
       \<lparr>Raw = ''size-1'', Object = UnstructuredObject (demo_infra 1 ''m1'')\<rparr>
       \<lparr>PatchType = ''JSONPatch'', Patch = ''{''\<rparr>) =
     \<lparr>Raw = ''size-1'', Object = UnstructuredObject (demo_infra 1 ''m1'')\<rparr>"
proof -
  have l: "jsonpatch_MergePatch (demo_libs True) ''size-1'' ''boom'' = Panic ''index out of range''"
    by code_simp
  have m: "snd (snd (applyPatchToObject (demo_libs True)
       \<lparr>Raw = ''size-1'', Object = UnstructuredObject (demo_infra 1 ''m1'')\<rparr>
       \<lparr>PatchType = ''JSONPatch'', Patch = ''{''\<rparr>)) =
     Some (Wrap (Errorf ''invalid character'')
       ''failed to apply patch: error decoding json patch (RFC6902)'')"
    by code_simp
  from applyPatchToObject_panic_isolated
         [of "\<lparr>PatchType = ''JSONPatch'', Patch = ''{''\<rparr>" "demo_libs True" "''''"
             "\<lparr>Raw = ''size-1'', Object = UnstructuredObject (demo_infra 1 ''m1'')\<rparr>"] m
  have u: "fst (applyPatchToObject (demo_libs True)
       \<lparr>Raw = ''size-1'', Object = UnstructuredObject (demo_infra 1 ''m1'')\<rparr>
       \<lparr>PatchType = ''JSONPatch'', Patch = ''{''\<rparr>) =
     \<lparr>Raw = ''size-1'', Object = UnstructuredObject (demo_infra 1 ''m1'')\<rparr>"
    by (metis prod.collapse)
  from applyPatchToObject_panic_isolated
         [of "\<lparr>PatchType = ''JSONMergePatch'', Patch = ''boom''\<rparr>" "demo_libs True"
             "''index out of range''"
             "\<lparr>Raw = ''size-1'', Object = UnstructuredObject (demo_infra 1 ''m1'')\<rparr>"] l m u
  show ?thesis by (simp add: JSONMergePatchType_def)
qed

subsection \<open>The negotiation with the extensions\<close>

lemma matchesMachine_all_match:
  assumes "matchesMachineSpec L (Machine (Current req)) (Machine (Desired req)) = Inr (True, d1)"
    and "matchesUnstructuredSpec L (BootstrapConfig (Current req)) (BootstrapConfig (Desired req)) =
           Inr (True, d2)"
    and "matchesUnstructuredSpec L (InfrastructureMachine (Current req))
           (InfrastructureMachine (Desired req)) = Inr (True, d3)"
  shows "matchesMachine L req = Returns (True, [], None)"
  using assms by (simp add: matchesMachine_def)

lemma loop_exhausted_append:
  assumes "canExtensionsUpdateMachine_loop L r machine pre req0 rs0 =
             (Returns (False, rs, None), req1, evs)"
  shows "canExtensionsUpdateMachine_loop L r machine (pre @ post) req0 rs0 =
           (case canExtensionsUpdateMachine_loop L r machine post req1 rs of
              (ret, req, evs') \<Rightarrow> (ret, req, evs @ evs'))"
  using assms
proof (induction pre arbitrary: req0 rs0 evs)
  case Nil
  then show ?case by (auto split: prod.splits)
next
  case (Cons h pre)
  then show ?case
    by (auto split: sum.splits prod.splits option.splits go.splits if_splits)
qed

lemma loop_exhausted_events:
  assumes "canExtensionsUpdateMachine_loop L r machine pre req0 rs0 =
             (Returns (False, rs, None), req1, evs)"
  shows "evs = full_rounds pre"
  using assms
proof (induction pre arbitrary: req0 rs0 evs)
  case Nil
  then show ?case by (simp add: full_rounds_def)
next
  case (Cons h pre)
  then show ?case
    by (auto simp: full_rounds_def split: sum.splits prod.splits option.splits go.splits if_splits)
qed

lemma applyPatchesToRequest_Desired:
  "Desired (fst (applyPatchesToRequest L req resp)) = Desired req"
  by (simp add: applyPatchesToRequest_def Let_def split: prod.splits option.splits)

lemma loop_Desired:
  "canExtensionsUpdateMachine_loop L r machine hs req rs = (ret, req', evs) \<Longrightarrow>
   Desired req' = Desired req"
proof (induction hs arbitrary: req rs ret req' evs)
  case Nil
  then show ?case by simp
next
  case (Cons h hs)
  show ?case
  proof (cases "CallExtension (RuntimeClient r) machine h req")
    case (Inl err)
    with Cons.prems show ?thesis by simp
  next
    case (Inr resp)
    obtain req1 e where a: "applyPatchesToRequest L req resp = (req1, e)"
      by (cases "applyPatchesToRequest L req resp")
    then have d: "Desired req1 = Desired req"
      using applyPatchesToRequest_Desired [of L req resp] by simp
    show ?thesis
    proof (cases e)
      case (Some err)
      with Cons.prems Inr a d show ?thesis by simp
    next
      case None
      show ?thesis
      proof (cases "matchesMachine L req1")
        case (Panics p)
        with Cons.prems Inr a d None show ?thesis by simp
      next
        case (Returns t)
        obtain m rs1 me where t: "t = (m, rs1, me)" by (cases t)
        show ?thesis
        proof (cases "me = None \<and> \<not> m")
          case False
          with Cons.prems Inr a d None Returns t show ?thesis
            by (auto split: option.splits if_splits)
        next
          case True
          obtain ret2 req2 evs2 where
            l: "canExtensionsUpdateMachine_loop L r machine hs req1 rs1 = (ret2, req2, evs2)"
            by (cases "canExtensionsUpdateMachine_loop L r machine hs req1 rs1")
          from Cons.IH [OF l] have "Desired req2 = Desired req1" .
          with Cons.prems Inr a d None Returns t True l show ?thesis by simp
        qed
      qed
    qed
  qed
qed

lemma loop_events:
  "canExtensionsUpdateMachine_loop L r machine hs req rs = (ret, req', evs) \<Longrightarrow>
   checks_follow_calls evs \<and>
   ((\<exists>reasons err. ret = Returns (True, reasons, err)) \<longrightarrow>
      (\<exists>h. Called_CallExtension h \<in> set evs))"
proof (induction hs arbitrary: req rs ret req' evs)
  case Nil
  then show ?case by auto
next
  case (Cons h hs)
  then show ?case
    by (fastforce split: sum.splits prod.splits option.splits go.splits if_splits)
qed

text \<open>
  C7. Early exit at convergence. Let the handlers before index \<open>i\<close> (the list \<open>pre\<close>)
  have been called without error and without convergence, and let the handler \<open>h\<close> at
  index \<open>i\<close> answer with patches after whose application the Machine, the bootstrap
  config and the infrastructure machine all match on their specs. Then
  \<^verbatim>\<open>canExtensionsUpdateMachine\<close> returns \<^verbatim>\<open>(true, nil, nil)\<close>, and the
  extensions it has called are the handlers up to \<open>h\<close>: no handler after \<open>h\<close> (the list
  \<open>post\<close>) is called.
\<close>

theorem canExtensionsUpdateMachine_converged_stops:
  assumes "overrideCanExtensionsUpdateMachine r = None"
    and "createRequest L (Client r) machine res = Returns (Inr req0)"
    and "canExtensionsUpdateMachine_loop L r machine pre req0 [] =
           (Returns (False, rs, None), req1, evs)"
    and "CallExtension (RuntimeClient r) machine h req1 = Inr resp"
    and "applyPatchesToRequest L req1 resp = (req2, None)"
    and "matchesMachineSpec L (Machine (Current req2)) (Machine (Desired req2)) = Inr (True, d1)"
    and "matchesUnstructuredSpec L (BootstrapConfig (Current req2))
           (BootstrapConfig (Desired req2)) = Inr (True, d2)"
    and "matchesUnstructuredSpec L (InfrastructureMachine (Current req2))
           (InfrastructureMachine (Desired req2)) = Inr (True, d3)"
  shows "canExtensionsUpdateMachine L r machine res (pre @ h # post) =
           (Returns (True, [], None), full_rounds (pre @ [h]))"
proof -
  have m: "matchesMachine L req2 = Returns (True, [], None)"
    using assms(6-8) by (rule matchesMachine_all_match)
  have e: "evs = full_rounds pre"
    using assms(3) by (rule loop_exhausted_events)
  have "canExtensionsUpdateMachine_loop L r machine (pre @ h # post) req0 [] =
          (Returns (True, [], None), req2, evs @ [Called_CallExtension h, Called_matchesMachine])"
    using loop_exhausted_append [OF assms(3), of "h # post"] assms(4,5) m by simp
  then show ?thesis
    using assms(1,2) e by (simp add: canExtensionsUpdateMachine_def full_rounds_def)
qed

theorem canExtensionsUpdateMachine_converged_stops_witness:
  "canExtensionsUpdateMachine (demo_libs True) (demo_reconciler []) demo_machine
     (demo_up_to_date_result 2) [''idle'', ''grow'', ''late''] =
   (Returns (True, [], None),
    [Called_CallExtension ''idle'', Called_matchesMachine,
     Called_CallExtension ''grow'', Called_matchesMachine])"
proof -
  have h1: "overrideCanExtensionsUpdateMachine (demo_reconciler []) = None"
    by (simp add: demo_reconciler_def)
  have h2: "createRequest (demo_libs True) (Client (demo_reconciler [])) demo_machine
              (demo_up_to_date_result 2) = Returns (Inr (demo_request 2))"
    by code_simp
  have h3: "canExtensionsUpdateMachine_loop (demo_libs True) (demo_reconciler []) demo_machine
              [''idle''] (demo_request 2) [] =
            (Returns (False, [''DockerMachine cannot be updated in-place: spec differs''], None),
             demo_request 2, [Called_CallExtension ''idle'', Called_matchesMachine])"
    by code_simp
  have h4: "CallExtension (RuntimeClient (demo_reconciler [])) demo_machine ''grow''
              (demo_request 2) = Inr grow_response"
    by code_simp
  have h5: "applyPatchesToRequest (demo_libs True) (demo_request 2) grow_response =
              (grown_request, None)"
    by code_simp
  have h6: "matchesMachineSpec (demo_libs True) (Machine (Current grown_request))
              (Machine (Desired grown_request)) = Inr (True, '''')"
    by code_simp
  have h7: "matchesUnstructuredSpec (demo_libs True) (BootstrapConfig (Current grown_request))
              (BootstrapConfig (Desired grown_request)) = Inr (True, '''')"
    by code_simp
  have h8: "matchesUnstructuredSpec (demo_libs True)
              (InfrastructureMachine (Current grown_request))
              (InfrastructureMachine (Desired grown_request)) = Inr (True, '''')"
    by code_simp
  from canExtensionsUpdateMachine_converged_stops [OF h1 h2 h3 h4 h5 h6 h7 h8, of "[''late'']"]
  show ?thesis by (simp add: full_rounds_def)
qed

text \<open>
  C8. Reasons of the last round only. When every handler has been called without error
  and the convergence check of the last round (after the last handler \<open>h\<close>) fails with
  the reasons \<open>reasons\<close>, \<^verbatim>\<open>canExtensionsUpdateMachine\<close> returns
  \<^verbatim>\<open>(false, reasons, nil)\<close>: the reasons \<open>rs\<close> of the rounds before are not in
  the result.
\<close>

theorem canExtensionsUpdateMachine_exhausted_reasons:
  assumes "overrideCanExtensionsUpdateMachine r = None"
    and "createRequest L (Client r) machine res = Returns (Inr req0)"
    and "canExtensionsUpdateMachine_loop L r machine pre req0 [] =
           (Returns (False, rs, None), req1, evs)"
    and "CallExtension (RuntimeClient r) machine h req1 = Inr resp"
    and "applyPatchesToRequest L req1 resp = (req2, None)"
    and "matchesMachine L req2 = Returns (False, reasons, None)"
  shows "canExtensionsUpdateMachine L r machine res (pre @ [h]) =
           (Returns (False, reasons, None), full_rounds (pre @ [h]))"
proof -
  have e: "evs = full_rounds pre"
    using assms(3) by (rule loop_exhausted_events)
  have "canExtensionsUpdateMachine_loop L r machine (pre @ [h]) req0 [] =
          (Returns (False, reasons, None), req2,
           evs @ [Called_CallExtension h, Called_matchesMachine])"
    using loop_exhausted_append [OF assms(3), of "[h]"] assms(4,5,6) by simp
  then show ?thesis
    using assms(1,2) e by (simp add: canExtensionsUpdateMachine_def full_rounds_def)
qed

theorem canExtensionsUpdateMachine_exhausted_reasons_witness:
  "canExtensionsUpdateMachine (demo_libs True) (demo_reconciler []) demo_machine
     (demo_up_to_date_result 2) [''idle'', ''wait''] =
   (Returns (False, [''DockerMachine cannot be updated in-place: spec differs''], None),
    [Called_CallExtension ''idle'', Called_matchesMachine,
     Called_CallExtension ''wait'', Called_matchesMachine])"
proof -
  have h1: "overrideCanExtensionsUpdateMachine (demo_reconciler []) = None"
    by (simp add: demo_reconciler_def)
  have h2: "createRequest (demo_libs True) (Client (demo_reconciler [])) demo_machine
              (demo_up_to_date_result 2) = Returns (Inr (demo_request 2))"
    by code_simp
  have h3: "canExtensionsUpdateMachine_loop (demo_libs True) (demo_reconciler []) demo_machine
              [''idle''] (demo_request 2) [] =
            (Returns (False, [''DockerMachine cannot be updated in-place: spec differs''], None),
             demo_request 2, [Called_CallExtension ''idle'', Called_matchesMachine])"
    by code_simp
  have h4: "CallExtension (RuntimeClient (demo_reconciler [])) demo_machine ''wait''
              (demo_request 2) =
            Inr \<lparr>MachinePatch = no_patch, BootstrapConfigPatch = no_patch,
                 InfrastructureMachinePatch = no_patch\<rparr>"
    by code_simp
  have h5: "applyPatchesToRequest (demo_libs True) (demo_request 2)
              \<lparr>MachinePatch = no_patch, BootstrapConfigPatch = no_patch,
               InfrastructureMachinePatch = no_patch\<rparr> = (demo_request 2, None)"
    by code_simp
  have h6: "matchesMachine (demo_libs True) (demo_request 2) =
              Returns (False, [''DockerMachine cannot be updated in-place: spec differs''], None)"
    by code_simp
  from canExtensionsUpdateMachine_exhausted_reasons [OF h1 h2 h3 h4 h5 h6]
  show ?thesis by (simp add: full_rounds_def)
qed

text \<open>
  C9. \<^verbatim>\<open>applyPatchesToRequest\<close> changes the current objects of the request at
  most: the desired objects after the call are those before it, whether the call fails or
  not; and so they are after any number of rounds of the negotiation.
\<close>

theorem applyPatchesToRequest_keeps_Desired:
  "Desired (fst (applyPatchesToRequest L req resp)) = Desired req \<and>
   (\<forall>handlers reasons ret req' events.
      canExtensionsUpdateMachine_loop L r machine handlers req reasons = (ret, req', events) \<longrightarrow>
      Desired req' = Desired req)"
  using applyPatchesToRequest_Desired loop_Desired by blast

theorem applyPatchesToRequest_keeps_Desired_witness:
  "applyPatchesToRequest (demo_libs True) (demo_request 2) grow_response = (grown_request, None) \<and>
   Desired grown_request = Desired (demo_request 2) \<and>
   Current grown_request \<noteq> Current (demo_request 2)"
proof -
  have h5: "applyPatchesToRequest (demo_libs True) (demo_request 2) grow_response =
              (grown_request, None)"
    by code_simp
  have c: "Current grown_request \<noteq> Current (demo_request 2)"
    by code_simp
  from applyPatchesToRequest_keeps_Desired
         [of "demo_libs True" "demo_request 2" grow_response "demo_reconciler []" demo_machine] h5
  have "Desired grown_request = Desired (demo_request 2)" by simp
  with h5 c show ?thesis by simp
qed

text \<open>
  C10. In \<^verbatim>\<open>canExtensionsUpdateMachine\<close> (no override function set) a convergence
  check only runs directly after the call of an extension: with no handler the function
  returns \<^verbatim>\<open>(false, nil, nil)\<close> for every request it has built, also one that is
  converged already, and runs no check; and whenever it returns \<^verbatim>\<open>true\<close> it has
  called an extension.
\<close>

theorem canExtensionsUpdateMachine_checks_after_calls:
  assumes "overrideCanExtensionsUpdateMachine r = None"
  shows "(\<forall>req. createRequest L (Client r) machine res = Returns (Inr req) \<longrightarrow>
            canExtensionsUpdateMachine L r machine res [] = (Returns (False, [], None), [])) \<and>
         (\<forall>handlers ret events.
            canExtensionsUpdateMachine L r machine res handlers = (ret, events) \<longrightarrow>
            checks_follow_calls events \<and>
            ((\<exists>reasons err. ret = Returns (True, reasons, err)) \<longrightarrow>
               (\<exists>h. Called_CallExtension h \<in> set events)))"
proof (intro conjI allI impI)
  fix req
  assume "createRequest L (Client r) machine res = Returns (Inr req)"
  then show "canExtensionsUpdateMachine L r machine res [] = (Returns (False, [], None), [])"
    using assms by (simp add: canExtensionsUpdateMachine_def)
next
  fix handlers ret events
  assume a: "canExtensionsUpdateMachine L r machine res handlers = (ret, events)"
  have "checks_follow_calls events \<and>
        ((\<exists>reasons err. ret = Returns (True, reasons, err)) \<longrightarrow>
           (\<exists>h. Called_CallExtension h \<in> set events))"
  proof (cases "createRequest L (Client r) machine res")
    case (Panics v)
    with a assms show ?thesis by (auto simp: canExtensionsUpdateMachine_def)
  next
    case (Returns c)
    show ?thesis
    proof (cases c)
      case (Inl err)
      with a assms Returns show ?thesis by (auto simp: canExtensionsUpdateMachine_def)
    next
      case (Inr req0)
      obtain ret' req' evs' where
        l: "canExtensionsUpdateMachine_loop L r machine handlers req0 [] = (ret', req', evs')"
        by (cases "canExtensionsUpdateMachine_loop L r machine handlers req0 []")
      with a assms Returns Inr have "ret = ret'" "events = evs'"
        by (simp_all add: canExtensionsUpdateMachine_def)
      with loop_events [OF l] show ?thesis by simp
    qed
  qed
  then show "checks_follow_calls events"
    and "\<exists>reasons err. ret = Returns (True, reasons, err) \<Longrightarrow>
         \<exists>h. Called_CallExtension h \<in> set events"
    by blast+
qed

theorem canExtensionsUpdateMachine_checks_after_calls_witness:
  "matchesMachine (demo_libs True) (demo_request 1) = Returns (True, [], None) \<and>
   canExtensionsUpdateMachine (demo_libs True) (demo_reconciler []) demo_machine
     (demo_up_to_date_result 1) [] = (Returns (False, [], None), []) \<and>
   canExtensionsUpdateMachine (demo_libs True) (demo_reconciler []) demo_machine
     (demo_up_to_date_result 1) [''idle''] =
     (Returns (True, [], None), [Called_CallExtension ''idle'', Called_matchesMachine]) \<and>
   checks_follow_calls [Called_CallExtension ''idle'', Called_matchesMachine]"
proof -
  have h1: "overrideCanExtensionsUpdateMachine (demo_reconciler []) = None"
    by (simp add: demo_reconciler_def)
  have h2: "createRequest (demo_libs True) (Client (demo_reconciler [])) demo_machine
              (demo_up_to_date_result 1) = Returns (Inr (demo_request 1))"
    by code_simp
  have m: "matchesMachine (demo_libs True) (demo_request 1) = Returns (True, [], None)"
    by code_simp
  have e: "canExtensionsUpdateMachine (demo_libs True) (demo_reconciler []) demo_machine
     (demo_up_to_date_result 1) [''idle''] =
     (Returns (True, [], None), [Called_CallExtension ''idle'', Called_matchesMachine])"
    by code_simp
  note t = canExtensionsUpdateMachine_checks_after_calls
             [OF h1, of "demo_libs True" demo_machine "demo_up_to_date_result 1"]
  from t h2 have z: "canExtensionsUpdateMachine (demo_libs True) (demo_reconciler []) demo_machine
     (demo_up_to_date_result 1) [] = (Returns (False, [], None), [])"
    by blast
  from t e have "checks_follow_calls [Called_CallExtension ''idle'', Called_matchesMachine]"
    by blast
  with m z e show ?thesis by simp
qed

subsection \<open>The feasibility gate\<close>

text \<open>
  C1. Ineligibility is not an error. With no override function set,
  \<^verbatim>\<open>canUpdateMachine\<close> returns \<^verbatim>\<open>(false, nil)\<close> when the feature gate is
  disabled, when one of the five objects of the up-to-date result is nil, when no
  extension is registered, and when the one registered extension has been called without
  convergence.
\<close>

theorem canUpdateMachine_ineligible:
  assumes "overrideCanUpdateMachineFunc r = None"
    and "\<not> InPlaceUpdates_Enabled L \<or>
         DesiredMachine res = None \<or>
         CurrentInfraMachine res = None \<or>
         DesiredInfraMachine res = None \<or>
         CurrentKubeadmConfig res = None \<or>
         DesiredKubeadmConfig res = None \<or>
         GetAllExtensions (RuntimeClient r) machine = Inr [] \<or>
         (\<exists>h reasons events.
            GetAllExtensions (RuntimeClient r) machine = Inr [h] \<and>
            canExtensionsUpdateMachine L r machine res [h] =
              (Returns (False, reasons, None), events))"
  shows "fst (canUpdateMachine L r machine res) = Returns (False, None)"
  using assms
  by (auto simp: canUpdateMachine_def split: sum.splits)

theorem canUpdateMachine_ineligible_witness:
  "fst (canUpdateMachine (demo_libs False) (demo_reconciler [''grow'']) demo_machine
          (demo_up_to_date_result 2)) = Returns (False, None) \<and>
   fst (canUpdateMachine (demo_libs True) (demo_reconciler [''grow'']) demo_machine
          ((demo_up_to_date_result 2)\<lparr>CurrentInfraMachine := None\<rparr>)) = Returns (False, None) \<and>
   fst (canUpdateMachine (demo_libs True) (demo_reconciler []) demo_machine
          (demo_up_to_date_result 1)) = Returns (False, None) \<and>
   canExtensionsUpdateMachine (demo_libs True) (demo_reconciler [''idle'']) demo_machine
          (demo_up_to_date_result 2) [''idle''] =
     (Returns (False, [''DockerMachine cannot be updated in-place: spec differs''], None),
      [Called_CallExtension ''idle'', Called_matchesMachine]) \<and>
   fst (canUpdateMachine (demo_libs True) (demo_reconciler [''idle'']) demo_machine
          (demo_up_to_date_result 2)) = Returns (False, None)"
proof -
  have o: "\<And>hs. overrideCanUpdateMachineFunc (demo_reconciler hs) = None"
    by (simp add: demo_reconciler_def)
  have g: "\<And>hs. GetAllExtensions (RuntimeClient (demo_reconciler hs)) demo_machine = Inr hs"
    by (simp add: demo_reconciler_def)
  have a: "fst (canUpdateMachine (demo_libs False) (demo_reconciler [''grow'']) demo_machine
          (demo_up_to_date_result 2)) = Returns (False, None)"
    by (rule canUpdateMachine_ineligible [OF o]) (simp add: demo_libs_def)
  have b: "fst (canUpdateMachine (demo_libs True) (demo_reconciler [''grow'']) demo_machine
          ((demo_up_to_date_result 2)\<lparr>CurrentInfraMachine := None\<rparr>)) = Returns (False, None)"
    by (rule canUpdateMachine_ineligible [OF o]) simp
  have c: "fst (canUpdateMachine (demo_libs True) (demo_reconciler []) demo_machine
          (demo_up_to_date_result 1)) = Returns (False, None)"
    by (rule canUpdateMachine_ineligible [OF o]) (simp add: g)
  have e: "canExtensionsUpdateMachine (demo_libs True) (demo_reconciler [''idle'']) demo_machine
          (demo_up_to_date_result 2) [''idle''] =
     (Returns (False, [''DockerMachine cannot be updated in-place: spec differs''], None),
      [Called_CallExtension ''idle'', Called_matchesMachine])"
    by code_simp
  have d: "fst (canUpdateMachine (demo_libs True) (demo_reconciler [''idle'']) demo_machine
          (demo_up_to_date_result 2)) = Returns (False, None)"
    by (rule canUpdateMachine_ineligible [OF o]) (use g e in blast)
  from a b c e d show ?thesis by simp
qed

text \<open>
  C2, as amended. When the feature gate is enabled, the five objects of the up-to-date
  result are present and more than one extension is registered (and no override function
  is set), \<^verbatim>\<open>canUpdateMachine\<close> returns \<^verbatim>\<open>false\<close> and the error that names
  the hooks, and calls no extension.
\<close>

theorem canUpdateMachine_multiple_hooks:
  assumes "overrideCanUpdateMachineFunc r = None"
    and "InPlaceUpdates_Enabled L"
    and "DesiredMachine res \<noteq> None" and "CurrentInfraMachine res \<noteq> None"
    and "DesiredInfraMachine res \<noteq> None" and "CurrentKubeadmConfig res \<noteq> None"
    and "DesiredKubeadmConfig res \<noteq> None"
    and "GetAllExtensions (RuntimeClient r) machine = Inr extensionHandlers"
    and "length extensionHandlers > 1"
  shows "canUpdateMachine L r machine res =
           (Returns (False,
              Some (Errorf (''found multiple CanUpdateMachine hooks ('' @
                strings_Join extensionHandlers '','' @
                '') (more than one is not supported yet)''))), [])"
  using assms
  by (auto simp: canUpdateMachine_def)

theorem canUpdateMachine_multiple_hooks_witness:
  "canUpdateMachine (demo_libs True) (demo_reconciler [''idle'', ''grow'']) demo_machine
     (demo_up_to_date_result 2) =
   (Returns (False,
      Some (Errorf
        ''found multiple CanUpdateMachine hooks (idle,grow) (more than one is not supported yet)'')),
    [])"
proof -
  have "canUpdateMachine (demo_libs True) (demo_reconciler [''idle'', ''grow'']) demo_machine
     (demo_up_to_date_result 2) =
     (Returns (False,
        Some (Errorf (''found multiple CanUpdateMachine hooks ('' @
          strings_Join [''idle'', ''grow''] '','' @
          '') (more than one is not supported yet)''))), [])"
    by (rule canUpdateMachine_multiple_hooks)
       (simp_all add: demo_reconciler_def demo_libs_def demo_up_to_date_result_def)
  then show ?thesis by simp
qed

text \<open>
  C2 as it is stated fails: with two extensions registered and the feature gate disabled,
  the check of the gate comes first and the result is \<^verbatim>\<open>(false, nil)\<close>.
\<close>

theorem canUpdateMachine_multiple_hooks_counterexample:
  "GetAllExtensions (RuntimeClient (demo_reconciler [''idle'', ''grow''])) demo_machine =
     Inr [''idle'', ''grow''] \<and>
   canUpdateMachine (demo_libs False) (demo_reconciler [''idle'', ''grow'']) demo_machine
     (demo_up_to_date_result 2) = (Returns (False, None), [])"
  by code_simp

end
